theory Spec2Isabelle
  imports Complex_Main "HOL-Library.Log_Nat" "HOL-Library.Product_Lexorder"
begin

section \<open>Exceptions and decoded JSON\<close>

text \<open>
  The script is Python: every failing operation raises an exception, and none is
  caught. An exception is a value here, and a fallible operation returns
  \<open>exc + 'a\<close> with \<open>Inl\<close> for the raise.
\<close>

datatype exc =
    KeyError
  | TypeError
  | ValueError
  | OverflowError
  | OSError
  | JSONDecodeError
  | ParserError

text \<open>
  What \<open>json.load\<close> returns. Numbers are integers: the one number the script reads is
  the profile's minute offset, an integer. An object is the list of its items in
  insertion order, with distinct keys.
\<close>

datatype json =
    JNull
  | JBool bool
  | JInt int
  | JStr string
  | JArr "json list"
  | JObj "(string \<times> json) list"

text \<open>Subscription \<open>v[key]\<close> with a string key.\<close>

fun getitem :: "json \<Rightarrow> string \<Rightarrow> exc + json" where
  "getitem (JObj items) key = (case map_of items key of None \<Rightarrow> Inl KeyError | Some v \<Rightarrow> Inr v)"
| "getitem (JArr xs) key = Inl TypeError"
| "getitem (JStr s) key = Inl TypeError"
| "getitem (JInt i) key = Inl TypeError"
| "getitem (JBool b) key = Inl TypeError"
| "getitem JNull key = Inl TypeError"

text \<open>
  Iteration \<open>for msg in v\<close>: a list gives its elements, a dict its keys, a string its
  characters; anything else is not iterable.
\<close>

fun iterate :: "json \<Rightarrow> exc + json list" where
  "iterate (JArr xs) = Inr xs"
| "iterate (JObj items) = Inr (map (\<lambda>kv. JStr (fst kv)) items)"
| "iterate (JStr s) = Inr (map (\<lambda>c. JStr [c]) s)"
| "iterate (JInt i) = Inl TypeError"
| "iterate (JBool b) = Inl TypeError"
| "iterate JNull = Inl TypeError"

text \<open>Unary minus \<open>-v\<close>; a bool is an int in Python.\<close>

fun py_neg :: "json \<Rightarrow> exc + int" where
  "py_neg (JInt i) = Inr (- i)"
| "py_neg (JBool b) = Inr (- (if b then 1 else 0))"
| "py_neg (JStr s) = Inl TypeError"
| "py_neg (JArr xs) = Inl TypeError"
| "py_neg (JObj items) = Inl TypeError"
| "py_neg JNull = Inl TypeError"

section \<open>Floating point\<close>

text \<open>
  A Python float is an IEEE 754 double: a sign and a magnitude, the magnitude a
  rational that has 53 significant bits. The sign is kept apart because \<open>-0.0\<close> prints
  with its sign. \<open>round_double\<close> rounds a non-negative rational to the nearest double,
  ties to even; \<open>binade q\<close> is the exponent \<open>e\<close> with \<open>2^e \<le> q < 2^(e+1)\<close>.
\<close>

record pyfloat =
  negative :: bool
  magnitude :: rat

definition round_half_even :: "rat \<Rightarrow> int" where
  "round_half_even q =
     (let f = \<lfloor>q\<rfloor>; r = q - of_int f
      in if r < 1 / 2 then f else if 1 / 2 < r then f + 1 else if even f then f else f + 1)"

definition pow2 :: "int \<Rightarrow> rat" where
  "pow2 e = (if 0 \<le> e then 2 ^ nat e else 1 / 2 ^ nat (- e))"

definition binade :: "rat \<Rightarrow> int" where
  "binade q =
     (let (a, b) = quotient_of q; e0 = bitlen a - bitlen b
      in if pow2 e0 \<le> q then e0 else e0 - 1)"

definition round_double :: "rat \<Rightarrow> rat" where
  "round_double q =
     (if q = 0 then 0
      else let ulp = pow2 (max (binade q) (- 1022) - 52)
           in of_int (round_half_even (q / ulp)) * ulp)"

text \<open>
  True division \<open>a / b\<close> of two ints (\<open>b\<close> not zero): the quotient correctly rounded,
  \<open>OverflowError\<close> when it is too large for a double.
\<close>

definition truediv :: "int \<Rightarrow> int \<Rightarrow> exc + pyfloat" where
  "truediv a b =
     (let q = round_double \<bar>of_int a / of_int b\<bar>
      in if 2 ^ 1024 \<le> q then Inl OverflowError
         else Inr \<lparr>negative = ((a < 0) \<noteq> (b < 0)), magnitude = q\<rparr>)"

text \<open>The product \<open>x * n\<close> of a float and a small int, which converts exactly.\<close>

definition fmul_int :: "pyfloat \<Rightarrow> int \<Rightarrow> pyfloat" where
  "fmul_int x n =
     \<lparr>negative = (negative x \<noteq> (n < 0)), magnitude = round_double (magnitude x * \<bar>of_int n\<bar>)\<rparr>"

text \<open>\<open>math.modf\<close>: fractional and integer part, both with the sign of the argument.\<close>

definition modf :: "pyfloat \<Rightarrow> pyfloat \<times> pyfloat" where
  "modf x =
     (\<lparr>negative = negative x, magnitude = magnitude x - of_int \<lfloor>magnitude x\<rfloor>\<rparr>,
      \<lparr>negative = negative x, magnitude = of_int \<lfloor>magnitude x\<rfloor>\<rparr>)"

text \<open>\<open>numpy.fix\<close> rounds towards zero; \<open>abs\<close> clears the sign; \<open>int\<close> truncates.\<close>

definition numpy_fix :: "pyfloat \<Rightarrow> pyfloat" where
  "numpy_fix x = \<lparr>negative = negative x, magnitude = of_int \<lfloor>magnitude x\<rfloor>\<rparr>"

definition float_abs :: "pyfloat \<Rightarrow> pyfloat" where
  "float_abs x = x\<lparr>negative := False\<rparr>"

definition int_of_float :: "pyfloat \<Rightarrow> int" where
  "int_of_float x = (if negative x then - \<lfloor>magnitude x\<rfloor> else \<lfloor>magnitude x\<rfloor>)"

section \<open>String formatting\<close>

fun str_nat :: "nat \<Rightarrow> string" where
  "str_nat n =
     (if n < 10 then [''0123456789'' ! n]
      else str_nat (n div 10) @ [''0123456789'' ! (n mod 10)])"

declare str_nat.simps [simp del]

definition str_int :: "int \<Rightarrow> string" where
  "str_int i = (if i < 0 then ''-'' @ str_nat (nat (- i)) else str_nat (nat i))"

text \<open>The format \<open>+.0f\<close>: always a sign, then the value rounded to an integer.\<close>

definition format_plus_0f :: "pyfloat \<Rightarrow> string" where
  "format_plus_0f x =
     (if negative x then ''-'' else ''+'') @ str_nat (nat (round_half_even (magnitude x)))"

text \<open>The format \<open>02d\<close>: zero-padded to width two, the sign counting in the width.\<close>

definition format_02d :: "int \<Rightarrow> string" where
  "format_02d n =
     (if n < 0
      then ''-'' @ replicate (1 - length (str_nat (nat (- n)))) CHR ''0'' @ str_nat (nat (- n))
      else replicate (2 - length (str_nat (nat n))) CHR ''0'' @ str_nat (nat n))"

section \<open>Zone label\<close>

text \<open>
  \<^verbatim>\<open>
  def utc_string_from_minutes(minutes: int) -> str:
      minutes_frac, hours = math.modf(minutes / 60)
      minutes_frac = int(abs(numpy.fix(minutes_frac * 60)))
      if minutes_frac == 0:
          return f"UTC{hours:+.0f}"
      return f"UTC{hours:+.0f}:{minutes_frac:02d}"
  \<close>
\<close>

definition utc_string_from_minutes :: "int \<Rightarrow> exc + string" where
  "utc_string_from_minutes minutes =
     (case truediv minutes 60 of
        Inl e \<Rightarrow> Inl e
      | Inr x \<Rightarrow>
          (let (minutes_frac, hours) = modf x;
               minutes_frac = int_of_float (float_abs (numpy_fix (fmul_int minutes_frac 60)))
           in if minutes_frac = 0 then Inr (''UTC'' @ format_plus_0f hours)
              else Inr (''UTC'' @ format_plus_0f hours @ '':'' @ format_02d minutes_frac)))"

text \<open>
  \<open>pytz.FixedOffset(offset)\<close>: the zone at a whole number of minutes from UTC. It is
  the UTC zone for 0 and refuses an offset of a day or more. A zone is kept as its
  UTC offset in seconds.
\<close>

definition FixedOffset :: "int \<Rightarrow> exc + int" where
  "FixedOffset offset =
     (if offset = 0 then Inr 0
      else if 1440 \<le> \<bar>offset\<bar> then Inl ValueError
      else Inr (offset * 60))"

section \<open>Dates and times\<close>

text \<open>
  A \<open>datetime\<close> object: the wall-clock fields and the attached zone. The zone is
  kept as its UTC offset in seconds at this datetime; \<open>None\<close> is a naive datetime.
\<close>

record datetime =
  year :: int
  month :: int
  day :: int
  hour :: int
  minute :: int
  second :: int
  microsecond :: int
  tzinfo :: "int option"

definition is_leap :: "int \<Rightarrow> bool" where
  "is_leap y = (y mod 4 = 0 \<and> (y mod 100 \<noteq> 0 \<or> y mod 400 = 0))"

text \<open>The table \<open>_DAYS_IN_MONTH\<close>, indexed from 1 (index 0 holds -1).\<close>

definition DAYS_IN_MONTH :: "int \<Rightarrow> int" where
  "DAYS_IN_MONTH m =
     (if m = 1 then 31 else if m = 2 then 28 else if m = 3 then 31
      else if m = 4 then 30 else if m = 5 then 31 else if m = 6 then 30
      else if m = 7 then 31 else if m = 8 then 31 else if m = 9 then 30
      else if m = 10 then 31 else if m = 11 then 30 else if m = 12 then 31
      else -1)"

definition days_in_month :: "int \<Rightarrow> int \<Rightarrow> int" where
  "days_in_month y m = (if m = 2 \<and> is_leap y then 29 else DAYS_IN_MONTH m)"

definition check_date_fields :: "int \<Rightarrow> int \<Rightarrow> int \<Rightarrow> bool" where
  "check_date_fields y m d =
     (1 \<le> y \<and> y \<le> 9999 \<and> 1 \<le> m \<and> m \<le> 12 \<and> 1 \<le> d \<and> d \<le> days_in_month y m)"

definition check_time_fields :: "int \<Rightarrow> int \<Rightarrow> int \<Rightarrow> int \<Rightarrow> bool" where
  "check_time_fields h mi s us =
     (0 \<le> h \<and> h \<le> 23 \<and> 0 \<le> mi \<and> mi \<le> 59 \<and> 0 \<le> s \<and> s \<le> 59 \<and> 0 \<le> us \<and> us \<le> 999999)"

text \<open>
  The constructor \<open>datetime(year, month, day, hour=0, minute=0, second=0)\<close>: it raises
  \<open>ValueError\<close> on a field out of range and builds a naive datetime otherwise.
\<close>

definition datetime_new :: "int \<Rightarrow> int \<Rightarrow> int \<Rightarrow> int \<Rightarrow> int \<Rightarrow> int \<Rightarrow> exc + datetime" where
  "datetime_new y m d h mi s =
     (if check_date_fields y m d \<and> check_time_fields h mi s 0
      then Inr \<lparr>year = y, month = m, day = d, hour = h, minute = mi, second = s,
                microsecond = 0, tzinfo = None\<rparr>
      else Inl ValueError)"

text \<open>What every \<open>datetime\<close> object satisfies, being built by a checked constructor.\<close>

definition valid_datetime :: "datetime \<Rightarrow> bool" where
  "valid_datetime dt =
     (check_date_fields (year dt) (month dt) (day dt)
      \<and> check_time_fields (hour dt) (minute dt) (second dt) (microsecond dt))"

section \<open>Calendar arithmetic\<close>

text \<open>
  The proleptic Gregorian ordinal of a date (1 January of year 1 is day 1) and its
  inverse, as the standard library computes them.
\<close>

definition DAYS_BEFORE_MONTH :: "int \<Rightarrow> int" where
  "DAYS_BEFORE_MONTH m =
     (if m = 1 then 0 else if m = 2 then 31 else if m = 3 then 59
      else if m = 4 then 90 else if m = 5 then 120 else if m = 6 then 151
      else if m = 7 then 181 else if m = 8 then 212 else if m = 9 then 243
      else if m = 10 then 273 else if m = 11 then 304 else if m = 12 then 334
      else -1)"

definition days_before_year :: "int \<Rightarrow> int" where
  "days_before_year y = (y - 1) * 365 + (y - 1) div 4 - (y - 1) div 100 + (y - 1) div 400"

definition days_before_month :: "int \<Rightarrow> int \<Rightarrow> int" where
  "days_before_month y m = DAYS_BEFORE_MONTH m + (if 2 < m \<and> is_leap y then 1 else 0)"

definition ymd2ord :: "int \<Rightarrow> int \<Rightarrow> int \<Rightarrow> int" where
  "ymd2ord y m d = days_before_year y + days_before_month y m + d"

text \<open>
  \<^verbatim>\<open>
  def _ord2ymd(n):
      n -= 1
      n400, n = divmod(n, _DI400Y)
      year = n400 * 400 + 1
      n100, n = divmod(n, _DI100Y)
      n4, n = divmod(n, _DI4Y)
      n1, n = divmod(n, 365)
      year += n100 * 100 + n4 * 4 + n1
      if n1 == 4 or n100 == 4:
          return year-1, 12, 31
      leapyear = n1 == 3 and (n4 != 24 or n100 == 3)
      month = (n + 50) >> 5
      preceding = _DAYS_BEFORE_MONTH[month] + (month > 2 and leapyear)
      if preceding > n:
          month -= 1
          preceding -= _DAYS_IN_MONTH[month] + (month == 2 and leapyear)
      n -= preceding
      return year, month, n+1
  \<close>
\<close>

definition ord2ymd :: "int \<Rightarrow> int \<times> int \<times> int" where
  "ord2ymd n0 =
     (let n = n0 - 1;
          n400 = n div 146097; n = n mod 146097;
          n100 = n div 36524; n = n mod 36524;
          n4 = n div 1461; n = n mod 1461;
          n1 = n div 365; n = n mod 365;
          y = n400 * 400 + 1 + n100 * 100 + n4 * 4 + n1
      in if n1 = 4 \<or> n100 = 4 then (y - 1, 12, 31)
         else
           let leapyear = (n1 = 3 \<and> (n4 \<noteq> 24 \<or> n100 = 3));
               m = (n + 50) div 32;
               preceding = DAYS_BEFORE_MONTH m + (if 2 < m \<and> leapyear then 1 else 0)
           in if n < preceding
              then (y, m - 1,
                    n - (preceding - (DAYS_IN_MONTH (m - 1) + (if m - 1 = 2 \<and> leapyear then 1 else 0))) + 1)
              else (y, m, n - preceding + 1))"

definition toordinal :: "datetime \<Rightarrow> int" where
  "toordinal dt = ymd2ord (year dt) (month dt) (day dt)"

definition seconds_of_day :: "datetime \<Rightarrow> int" where
  "seconds_of_day dt = second dt + minute dt * 60 + hour dt * 3600"

text \<open>
  \<open>dt + timedelta(seconds=s)\<close>: the sum is normalised to days and seconds of the day,
  and a day outside years 1 to 9999 is an \<open>OverflowError\<close>. The zone is kept.
\<close>

definition add_seconds :: "datetime \<Rightarrow> int \<Rightarrow> exc + datetime" where
  "add_seconds dt s =
     (let total = seconds_of_day dt + s;
          days = toordinal dt + total div 86400;
          secs = total mod 86400;
          hh = secs div 3600; rem = secs mod 3600;
          mm = rem div 60; ss = rem mod 60
      in if 0 < days \<and> days \<le> 3652059
         then (case ord2ymd days of
                 (y, m, d) \<Rightarrow>
                   Inr \<lparr>year = y, month = m, day = d, hour = hh, minute = mm, second = ss,
                        microsecond = microsecond dt, tzinfo = tzinfo dt\<rparr>)
         else Inl OverflowError)"

text \<open>
  \<open>a - b\<close> on two datetimes, a \<open>timedelta\<close>: days, seconds and microseconds, normalised.
  A naive and an aware datetime do not subtract.
\<close>

record timedelta =
  days :: int
  seconds :: int
  microseconds :: int

definition timedelta_new :: "int \<Rightarrow> int \<Rightarrow> int \<Rightarrow> timedelta" where
  "timedelta_new d s us =
     (let total = (d * 86400 + s) * 1000000 + us
      in \<lparr>days = total div 86400000000,
          seconds = (total mod 86400000000) div 1000000,
          microseconds = total mod 1000000\<rparr>)"

definition datetime_sub :: "datetime \<Rightarrow> datetime \<Rightarrow> exc + timedelta" where
  "datetime_sub a b =
     (let d = toordinal a - toordinal b;
          s = seconds_of_day a - seconds_of_day b;
          us = microsecond a - microsecond b
      in case (tzinfo a, tzinfo b) of
           (None, None) \<Rightarrow> Inr (timedelta_new d s us)
         | (Some myoff, Some otoff) \<Rightarrow> Inr (timedelta_new d (s + otoff - myoff) us)
         | (None, Some otoff) \<Rightarrow> Inl TypeError
         | (Some myoff, None) \<Rightarrow> Inl TypeError)"

text \<open>
  The order on datetimes: two naive ones compare by their fields, two aware ones by
  the instant they denote, and a naive with an aware one is a \<open>TypeError\<close>.
\<close>

definition getstate :: "datetime \<Rightarrow> int \<times> int \<times> int \<times> int \<times> int \<times> int \<times> int" where
  "getstate dt = (year dt, month dt, day dt, hour dt, minute dt, second dt, microsecond dt)"

definition utc_microseconds :: "datetime \<Rightarrow> int \<Rightarrow> int" where
  "utc_microseconds dt off =
     ((toordinal dt * 86400 + seconds_of_day dt - off) * 1000000 + microsecond dt)"

definition datetime_lt :: "datetime \<Rightarrow> datetime \<Rightarrow> exc + bool" where
  "datetime_lt a b =
     (case (tzinfo a, tzinfo b) of
        (None, None) \<Rightarrow> Inr (getstate a < getstate b)
      | (Some myoff, Some otoff) \<Rightarrow> Inr (utc_microseconds a myoff < utc_microseconds b otoff)
      | (None, Some otoff) \<Rightarrow> Inl TypeError
      | (Some myoff, None) \<Rightarrow> Inl TypeError)"

text \<open>The builtins \<open>max\<close> and \<open>min\<close>: the first greatest, or least, element.\<close>

fun max_from :: "datetime \<Rightarrow> datetime list \<Rightarrow> exc + datetime" where
  "max_from cur [] = Inr cur"
| "max_from cur (x # xs) =
     (case datetime_lt cur x of
        Inl e \<Rightarrow> Inl e
      | Inr b \<Rightarrow> max_from (if b then x else cur) xs)"

fun min_from :: "datetime \<Rightarrow> datetime list \<Rightarrow> exc + datetime" where
  "min_from cur [] = Inr cur"
| "min_from cur (x # xs) =
     (case datetime_lt x cur of
        Inl e \<Rightarrow> Inl e
      | Inr b \<Rightarrow> min_from (if b then x else cur) xs)"

fun py_max :: "datetime list \<Rightarrow> exc + datetime" where
  "py_max [] = Inl ValueError"
| "py_max (x # xs) = max_from x xs"

fun py_min :: "datetime list \<Rightarrow> exc + datetime" where
  "py_min [] = Inl ValueError"
| "py_min (x # xs) = min_from x xs"

section \<open>Bucketizer\<close>

text \<open>
  \<^verbatim>\<open>
  for date in message_dates:
      only_date = datetime(date.year, date.month, date.day)
      only_time = datetime(1970, 1, 1, date.hour, date.minute, date.second)
      dates.append(only_date)
      times.append(only_time)
  \<close>
\<close>

definition only_date :: "datetime \<Rightarrow> exc + datetime" where
  "only_date date = datetime_new (year date) (month date) (day date) 0 0 0"

definition only_time :: "datetime \<Rightarrow> exc + datetime" where
  "only_time date = datetime_new 1970 1 1 (hour date) (minute date) (second date)"

fun processing_dates ::
  "datetime list \<Rightarrow> datetime list \<Rightarrow> datetime list \<Rightarrow> exc + (datetime list \<times> datetime list)"
where
  "processing_dates [] dates_acc times_acc = Inr (dates_acc, times_acc)"
| "processing_dates (date # rest) dates_acc times_acc =
     (case only_date date of
        Inl e \<Rightarrow> Inl e
      | Inr d \<Rightarrow>
          (case only_time date of
             Inl e \<Rightarrow> Inl e
           | Inr t \<Rightarrow> processing_dates rest (dates_acc @ [d]) (times_acc @ [t])))"

text \<open>
  The wall-clock reading of a datetime down to the second: calendar date and time of
  day, without the sub-second part.
\<close>

definition wall_clock :: "datetime \<Rightarrow> int \<times> int \<times> int \<times> int \<times> int \<times> int" where
  "wall_clock dt = (year dt, month dt, day dt, hour dt, minute dt, second dt)"

text \<open>Date from the Date Bucket, time of day from the Time Bucket.\<close>

definition recombine :: "datetime \<Rightarrow> datetime \<Rightarrow> int \<times> int \<times> int \<times> int \<times> int \<times> int" where
  "recombine d t = (year d, month d, day d, hour t, minute t, second t)"

section \<open>The environment of a run\<close>

text \<open>
  What the script reads from outside: the file system, the two libraries that parse
  and draw, and the zone of the machine. \<open>load\<close> is \<open>open\<close> followed by \<open>json.load\<close>;
  \<open>glob_recursive\<close> is \<open>glob.glob(pattern, recursive=True)\<close>; \<open>parse\<close> is
  \<open>dateutil.parser.parse\<close>; \<open>local_utcoffset\<close> is the offset the machine's zone gives a
  naive datetime; \<open>str_of\<close> is \<open>str\<close> on a value that is not a string; \<open>subplots\<close> and
  \<open>savefig\<close> say whether the drawing library raises.
\<close>

record env =
  abspath :: "string \<Rightarrow> string"
  path_exists :: "string \<Rightarrow> bool"
  load :: "string \<Rightarrow> exc + json"
  glob_recursive :: "string \<Rightarrow> string list"
  parse :: "string \<Rightarrow> exc + datetime"
  local_utcoffset :: "datetime \<Rightarrow> exc + int"
  str_of :: "json \<Rightarrow> string"
  subplots :: "pyfloat \<times> int \<Rightarrow> exc option"
  savefig :: "string \<Rightarrow> exc option"

text \<open>\<open>os.path.join\<close> on POSIX paths.\<close>

definition join2 :: "string \<Rightarrow> string \<Rightarrow> string" where
  "join2 a b =
     (if b \<noteq> [] \<and> hd b = CHR ''/'' then b
      else if a = [] \<or> last a = CHR ''/'' then a @ b
      else a @ ''/'' @ b)"

definition path_join :: "string \<Rightarrow> string list \<Rightarrow> string" where
  "path_join a ps = foldl join2 a ps"

text \<open>A value inside an f-string: a string as it is, anything else through \<open>str\<close>.\<close>

definition format_value :: "env \<Rightarrow> json \<Rightarrow> string" where
  "format_value E v = (case v of JStr s \<Rightarrow> s | _ \<Rightarrow> str_of E v)"

text \<open>The horizontal ellipsis of the progress lines, in UTF-8.\<close>

definition ellipsis :: string where
  "ellipsis = [CHR 0xE2, CHR 0x80, CHR 0xA6]"

section \<open>Timestamp normalizer\<close>

text \<open>
  \<open>dt.astimezone(tz)\<close>: the offset of \<open>dt\<close> is taken off, the zone attached, and the
  offset of the zone added. A naive \<open>dt\<close> is read in the machine's zone.
\<close>

definition astimezone :: "env \<Rightarrow> datetime \<Rightarrow> int \<Rightarrow> exc + datetime" where
  "astimezone E dt tz =
     (case (case tzinfo dt of None \<Rightarrow> local_utcoffset E dt | Some off \<Rightarrow> Inr off) of
        Inl e \<Rightarrow> Inl e
      | Inr myoffset \<Rightarrow>
          (case add_seconds dt (- myoffset) of
             Inl e \<Rightarrow> Inl e
           | Inr utc \<Rightarrow> add_seconds (utc\<lparr>tzinfo := Some tz\<rparr>) tz))"

text \<open>\<open>dateutil.parser.parse\<close> takes a string and nothing else.\<close>

definition parse_timestamp :: "env \<Rightarrow> json \<Rightarrow> exc + datetime" where
  "parse_timestamp E v = (case v of JStr s \<Rightarrow> parse E s | _ \<Rightarrow> Inl TypeError)"

text \<open>
  \<^verbatim>\<open>
  msg_date = dateutil.parser.parse(msg["Timestamp"]).astimezone(user_timezone)
  \<close>
\<close>

definition msg_date :: "env \<Rightarrow> int \<Rightarrow> json \<Rightarrow> exc + datetime" where
  "msg_date E user_timezone msg =
     (case getitem msg ''Timestamp'' of
        Inl e \<Rightarrow> Inl e
      | Inr ts \<Rightarrow>
          (case parse_timestamp E ts of
             Inl e \<Rightarrow> Inl e
           | Inr dt \<Rightarrow> astimezone E dt user_timezone))"

text \<open>The inner loop, over the records of one file, and the outer one, over the files.\<close>

fun parse_message_list :: "env \<Rightarrow> int \<Rightarrow> json list \<Rightarrow> datetime list \<Rightarrow> exc + datetime list" where
  "parse_message_list E user_timezone [] message_dates = Inr message_dates"
| "parse_message_list E user_timezone (msg # rest) message_dates =
     (case msg_date E user_timezone msg of
        Inl e \<Rightarrow> Inl e
      | Inr d \<Rightarrow> parse_message_list E user_timezone rest (message_dates @ [d]))"

fun parsing_messages :: "env \<Rightarrow> int \<Rightarrow> string list \<Rightarrow> datetime list \<Rightarrow> exc + datetime list" where
  "parsing_messages E user_timezone [] message_dates = Inr message_dates"
| "parsing_messages E user_timezone (mf # rest) message_dates =
     (case load E mf of
        Inl e \<Rightarrow> Inl e
      | Inr message_list \<Rightarrow>
          (case iterate message_list of
             Inl e \<Rightarrow> Inl e
           | Inr msgs \<Rightarrow>
               (case parse_message_list E user_timezone msgs message_dates of
                  Inl e \<Rightarrow> Inl e
                | Inr message_dates' \<Rightarrow> parsing_messages E user_timezone rest message_dates')))"

text \<open>
  \<^verbatim>\<open>
  tz_offset = user_info["settings"]["settings"]["localization"]["timezoneOffset"]
  user_timezone = pytz.FixedOffset(-tz_offset)
  user_timezone_name = utc_string_from_minutes(-tz_offset)
  \<close>
\<close>

definition tz_offset_of :: "json \<Rightarrow> exc + json" where
  "tz_offset_of user_info =
     (case getitem user_info ''settings'' of
        Inl e \<Rightarrow> Inl e
      | Inr s1 \<Rightarrow>
          (case getitem s1 ''settings'' of
             Inl e \<Rightarrow> Inl e
           | Inr s2 \<Rightarrow>
               (case getitem s2 ''localization'' of
                  Inl e \<Rightarrow> Inl e
                | Inr loc \<Rightarrow> getitem loc ''timezoneOffset'')))"

definition user_timezone_of :: "json \<Rightarrow> exc + int" where
  "user_timezone_of tz_offset =
     (case py_neg tz_offset of Inl e \<Rightarrow> Inl e | Inr m \<Rightarrow> FixedOffset m)"

definition user_timezone_name_of :: "json \<Rightarrow> exc + string" where
  "user_timezone_name_of tz_offset =
     (case py_neg tz_offset of Inl e \<Rightarrow> Inl e | Inr m \<Rightarrow> utc_string_from_minutes m)"

text \<open>The zone label as the title shows it for a stored offset: sign inversion, then the formatter.\<close>

definition zone_label :: "int \<Rightarrow> exc + string" where
  "zone_label stored = user_timezone_name_of (JInt stored)"

section \<open>Renderer\<close>

text \<open>
  What the figure is built from. The calls that configure axes, grid and ticks take
  constants and are not modelled.
  \<^verbatim>\<open>
  fig, ax = plt.subplots(figsize=((max(dates) - min(dates)).days / 200, 3))
  plt.scatter(dates, times, ...)
  plt.xlim(min(dates), max(dates))
  plt.title(f"When does {user_name} post on Discord? ({user_timezone_name})")
  \<close>
\<close>

record figure =
  figsize :: "pyfloat \<times> int"
  points :: "(datetime \<times> datetime) list"
  xlim :: "datetime \<times> datetime"
  title :: string

definition figure_width :: "datetime list \<Rightarrow> exc + pyfloat" where
  "figure_width dates =
     (case py_max dates of
        Inl e \<Rightarrow> Inl e
      | Inr mx \<Rightarrow>
          (case py_min dates of
             Inl e \<Rightarrow> Inl e
           | Inr mn \<Rightarrow>
               (case datetime_sub mx mn of
                  Inl e \<Rightarrow> Inl e
                | Inr delta \<Rightarrow> truediv (days delta) 200)))"

definition creating_graph ::
  "env \<Rightarrow> string \<Rightarrow> string \<Rightarrow> datetime list \<Rightarrow> datetime list \<Rightarrow> exc + figure" where
  "creating_graph E user_name user_timezone_name dates_list times_list =
     (case figure_width dates_list of
        Inl e \<Rightarrow> Inl e
      | Inr w \<Rightarrow>
          (case subplots E (w, 3) of
             Some e \<Rightarrow> Inl e
           | None \<Rightarrow>
               (case py_min dates_list of
                  Inl e \<Rightarrow> Inl e
                | Inr mn \<Rightarrow>
                    (case py_max dates_list of
                       Inl e \<Rightarrow> Inl e
                     | Inr mx \<Rightarrow>
                         Inr \<lparr>figsize = (w, 3), points = zip dates_list times_list,
                              xlim = (mn, mx),
                              title = ''When does '' @ user_name @ '' post on Discord? (''
                                        @ user_timezone_name @ '')''\<rparr>))))"

section \<open>The script\<close>

text \<open>
  How a run ends: \<open>sys.exit(n)\<close>, an exception nobody catches, or the end of the
  script. The interpreter's exit status is \<open>n\<close>, 1 and 0.
\<close>

datatype outcome = Exit int | Uncaught exc | Finished

fun exit_code :: "outcome \<Rightarrow> int" where
  "exit_code (Exit n) = n"
| "exit_code (Uncaught e) = 1"
| "exit_code Finished = 0"

text \<open>A run: the lines printed, the files written, the figure if one was made, the end.\<close>

record run =
  console :: "string list"
  written :: "string list"
  fig :: "figure option"
  outcome :: outcome

definition raised :: "string list \<Rightarrow> exc \<Rightarrow> run" where
  "raised printed e = \<lparr>console = printed, written = [], fig = None, outcome = Uncaught e\<rparr>"

definition invalid_archive :: "string \<Rightarrow> string" where
  "invalid_archive archive_dir = archive_dir @ '' is not a valid discord data archive''"

text \<open>The two \<open>savefig\<close> calls and the last line.\<close>

definition rendering :: "env \<Rightarrow> string \<Rightarrow> string list \<Rightarrow> figure \<Rightarrow> run" where
  "rendering E archive_dir printed f =
     (let c1 = printed @ [''rendering png'' @ ellipsis];
          png = path_join archive_dir [''out.png''];
          svg = path_join archive_dir [''out.svg'']
      in case savefig E png of
           Some e \<Rightarrow> \<lparr>console = c1, written = [], fig = Some f, outcome = Uncaught e\<rparr>
         | None \<Rightarrow>
             (let c2 = c1 @ [''rendering svg'' @ ellipsis]
              in case savefig E svg of
                   Some e \<Rightarrow> \<lparr>console = c2, written = [png], fig = Some f, outcome = Uncaught e\<rparr>
                 | None \<Rightarrow>
                     \<lparr>console = c2 @ [''done!''], written = [png, svg], fig = Some f,
                      outcome = Finished\<rparr>))"

text \<open>From the profile, once both paths exist, to the figure.\<close>

definition plot_archive :: "env \<Rightarrow> string \<Rightarrow> string \<Rightarrow> string \<Rightarrow> run" where
  "plot_archive E archive_dir user_json_path messages_path =
     (case load E user_json_path of
        Inl e \<Rightarrow> raised [] e
      | Inr user_info \<Rightarrow>
     (case getitem user_info ''global_name'' of
        Inl e \<Rightarrow> raised [] e
      | Inr user_name \<Rightarrow>
     (let c1 = [''discord user: '' @ format_value E user_name]
      in case tz_offset_of user_info of
        Inl e \<Rightarrow> raised c1 e
      | Inr tz_offset \<Rightarrow>
     (case user_timezone_of tz_offset of
        Inl e \<Rightarrow> raised c1 e
      | Inr user_timezone \<Rightarrow>
     (case user_timezone_name_of tz_offset of
        Inl e \<Rightarrow> raised c1 e
      | Inr user_timezone_name \<Rightarrow>
     (let c2 = c1 @ [''finding messages'' @ ellipsis];
          message_files = glob_recursive E (path_join messages_path [''**'', ''messages.json'']);
          c3 = c2 @ [''parsing messages'' @ ellipsis]
      in case parsing_messages E user_timezone message_files [] of
        Inl e \<Rightarrow> raised c3 e
      | Inr message_dates \<Rightarrow>
     (let c4 = c3 @ [''total messages: '' @ str_nat (length message_dates),
                     ''processing dates'' @ ellipsis]
      in case processing_dates message_dates [] [] of
        Inl e \<Rightarrow> raised c4 e
      | Inr (dates_list, times_list) \<Rightarrow>
     (let c5 = c4 @ [''creating graph'' @ ellipsis]
      in case creating_graph E (format_value E user_name) user_timezone_name
                dates_list times_list of
        Inl e \<Rightarrow> raised c5 e
      | Inr f \<Rightarrow> rendering E archive_dir c5 f))))))))"

definition main :: "env \<Rightarrow> string \<Rightarrow> run" where
  "main E input =
     (let archive_dir = abspath E input;
          user_json_path = path_join archive_dir [''account'', ''user.json''];
          messages_path = path_join archive_dir [''messages'']
      in if \<not> path_exists E user_json_path \<or> \<not> path_exists E messages_path
         then \<lparr>console = [invalid_archive archive_dir], written = [], fig = None,
               outcome = Exit 1\<rparr>
         else plot_archive E archive_dir user_json_path messages_path)"

section \<open>Properties of the bucketizer\<close>

lemma check_epoch_day: "check_date_fields 1970 1 1"
  by (simp add: check_date_fields_def days_in_month_def DAYS_IN_MONTH_def)

lemma only_date_valid:
  assumes "valid_datetime dt"
  shows "only_date dt = Inr \<lparr>year = year dt, month = month dt, day = day dt, hour = 0,
           minute = 0, second = 0, microsecond = 0, tzinfo = None\<rparr>"
  using assms
  by (simp add: only_date_def datetime_new_def valid_datetime_def check_time_fields_def)

lemma only_time_valid:
  assumes "valid_datetime dt"
  shows "only_time dt = Inr \<lparr>year = 1970, month = 1, day = 1, hour = hour dt,
           minute = minute dt, second = second dt, microsecond = 0, tzinfo = None\<rparr>"
  using assms check_epoch_day
  by (simp add: only_time_def datetime_new_def valid_datetime_def check_time_fields_def)

lemma processing_dates_acc:
  assumes "\<forall>dt \<in> set mds. valid_datetime dt"
  shows "processing_dates mds ds ts =
           Inr (ds @ map (\<lambda>dt. projr (only_date dt)) mds, ts @ map (\<lambda>dt. projr (only_time dt)) mds)"
  using assms
proof (induction mds arbitrary: ds ts)
  case Nil
  show ?case by simp
next
  case (Cons dt rest)
  from Cons.prems have v: "valid_datetime dt" and r: "\<forall>x \<in> set rest. valid_datetime x"
    by simp_all
  show ?case
    by (simp add: only_date_valid [OF v] only_time_valid [OF v] Cons.IH [OF r])
qed

text \<open>
  C2. For a message whose normalized timestamp is \<open>dt\<close>, both buckets are built, and
  the year, month and day of the Date Bucket with the hour, minute and second of the
  Time Bucket are the wall-clock reading of \<open>dt\<close> cut at the second.
\<close>

theorem buckets_recombine:
  assumes "valid_datetime dt"
  shows "\<exists>d t. only_date dt = Inr d \<and> only_time dt = Inr t \<and> recombine d t = wall_clock dt"
  by (simp add: only_date_valid [OF assms] only_time_valid [OF assms] recombine_def wall_clock_def)

theorem buckets_recombine_witness:
  "valid_datetime \<lparr>year = 2021, month = 2, day = 28, hour = 23, minute = 59, second = 7,
      microsecond = 123456, tzinfo = Some 3600\<rparr>
   \<and> (\<exists>d t. only_date \<lparr>year = 2021, month = 2, day = 28, hour = 23, minute = 59, second = 7,
                microsecond = 123456, tzinfo = Some 3600\<rparr> = Inr d
            \<and> only_time \<lparr>year = 2021, month = 2, day = 28, hour = 23, minute = 59, second = 7,
                microsecond = 123456, tzinfo = Some 3600\<rparr> = Inr t
            \<and> recombine d t = (2021, 2, 28, 23, 59, 7))"
proof -
  have v: "valid_datetime \<lparr>year = 2021, month = 2, day = 28, hour = 23, minute = 59, second = 7,
      microsecond = 123456, tzinfo = Some 3600\<rparr>"
    by (simp add: valid_datetime_def check_date_fields_def check_time_fields_def
        days_in_month_def DAYS_IN_MONTH_def)
  show ?thesis
    using v buckets_recombine [OF v] by (simp add: wall_clock_def)
qed

text \<open>
  C7. Bucketizing a sequence of normalized timestamps gives two sequences of the same
  length as the input, and at every index both buckets are the ones built from the
  timestamp at that index.
\<close>

theorem buckets_parallel:
  assumes "\<forall>dt \<in> set mds. valid_datetime dt"
  shows "\<exists>ds ts. processing_dates mds [] [] = Inr (ds, ts)
           \<and> length ds = length mds \<and> length ts = length mds
           \<and> (\<forall>i < length mds. only_date (mds ! i) = Inr (ds ! i)
                               \<and> only_time (mds ! i) = Inr (ts ! i))"
proof -
  have "\<forall>i < length mds. valid_datetime (mds ! i)"
    using assms by simp
  then show ?thesis
    by (simp add: processing_dates_acc [OF assms] only_date_valid only_time_valid)
qed

end
